theory Spec2Isabelle
  imports Main
begin

section \<open>The counting engine of \<^verbatim>\<open>src/Main.py\<close> (class \<^verbatim>\<open>CountingAI\<close>)\<close>

text \<open>
  The class \<^verbatim>\<open>CountingAI\<close> is embedded with explicit state passing: every method takes
  the instance \<open>self\<close> and returns its value together with the instance as the call leaves
  it.  A raised exception is a value \<open>Inl e\<close>.  Python integers are \<open>int\<close>.  A Python
  \<^verbatim>\<open>str\<close> is a \<open>string\<close>, a list of characters with code points 0 to 255; the two
  library tables the engine consults (lower-casing, the class \<^verbatim>\<open>\w\<close>) are written out for
  exactly this range.  A Python \<^verbatim>\<open>dict\<close> is an association list in insertion order
  with one entry per key.
\<close>

subsection \<open>Data model\<close>

datatype error = ValueError string | OverflowError string | MemoryError

text \<open>The dictionary \<^verbatim>\<open>{"characters": ..., "words": ...}\<close> built by \<^verbatim>\<open>count_occurrences\<close>.\<close>

record text_counts =
  characters :: "(char \<times> nat) list"
  words :: "(string \<times> nat) list"

text \<open>The third component of a history entry, and \<^verbatim>\<open>last_result\<close>: one case per method.\<close>

datatype result =
    RangeResult "int list"
  | OccurrencesResult text_counts
  | CustomResult "(string \<times> nat) list"

record CountingAI =
  history :: "(string \<times> string \<times> result) list"
  mode :: string
  custom_items :: "string list"
  last_result :: "result option"

text \<open>\<^verbatim>\<open>__init__\<close>\<close>

definition init :: CountingAI where
  "init = \<lparr>history = [], mode = ''basic'', custom_items = [], last_result = None\<rparr>"

subsection \<open>Library functions used by the engine\<close>

text \<open>
  \<^verbatim>\<open>list(range(start, stop, step))\<close> for a nonzero step: the values \<open>start\<close>,
  \<open>start + step\<close>, ... as long as they lie strictly before \<open>stop\<close> in the direction of
  the step.  (\<^verbatim>\<open>range\<close> raises on a zero step; \<^verbatim>\<open>basic_count\<close> has returned before
  it could call it with one.)  This is the list as a value, of any length; whether the
  interpreter can build it is the matter of \<open>list_range\<close> below.
\<close>

function py_range :: "int \<Rightarrow> int \<Rightarrow> int \<Rightarrow> int list" where
  "py_range start stop step =
     (if (0 < step \<and> start < stop) \<or> (step < 0 \<and> stop < start)
      then start # py_range (start + step) stop step
      else [])"
  by pat_completeness auto
termination
  by (relation "measure (\<lambda>(start, stop, step). nat (if 0 < step then stop - start else start - stop))")
     auto

declare py_range.simps [simp del]

text \<open>
  \<^verbatim>\<open>len(range(start, stop, step))\<close> for a nonzero step, computed from the bounds as the
  interpreter does before it builds anything.
\<close>

definition range_len :: "int \<Rightarrow> int \<Rightarrow> int \<Rightarrow> int" where
  "range_len start stop step =
     (if 0 < step \<and> start < stop then (stop - start - 1) div step + 1
      else if step < 0 \<and> stop < start then (start - stop - 1) div (- step) + 1
      else 0)"

text \<open>\<^verbatim>\<open>sys.maxsize\<close>, the largest length a container can have, on a 64-bit interpreter.\<close>

definition maxsize :: int where
  "maxsize = 2 ^ 63 - 1"

text \<open>
  What \<^verbatim>\<open>list(range(start, stop, step))\<close> does when the size of the list counts.
  \<^verbatim>\<open>list\<close> first asks the range for its length, which raises \<^verbatim>\<open>OverflowError\<close>
  when the length is above \<^verbatim>\<open>sys.maxsize\<close>; then it allocates the list, which raises
  \<^verbatim>\<open>MemoryError\<close> when there is no room for that many elements.  How many elements
  the interpreter has room for at the moment of the call is not in the source: it is
  the parameter \<open>room\<close>.
\<close>

definition list_range :: "nat \<Rightarrow> int \<Rightarrow> int \<Rightarrow> int \<Rightarrow> error + int list" where
  "list_range room start stop step =
     (if maxsize < range_len start stop step
      then Inl (OverflowError ''Python int too large to convert to C ssize_t'')
      else if int room < range_len start stop step then Inl MemoryError
      else Inr (py_range start stop step))"

text \<open>\<^verbatim>\<open>str(n)\<close> and the \<^verbatim>\<open>{n}\<close> of an f-string, for an integer: decimal digits, a minus sign first.\<close>

definition digit_char :: "nat \<Rightarrow> char" where
  "digit_char d = ''0123456789'' ! (d mod 10)"

fun str_nat :: "nat \<Rightarrow> string" where
  "str_nat n = (if n < 10 then [digit_char n] else str_nat (n div 10) @ [digit_char (n mod 10)])"

declare str_nat.simps [simp del]

definition str_int :: "int \<Rightarrow> string" where
  "str_int i = (if i < 0 then CHR ''-'' # str_nat (nat (- i)) else str_nat (nat i))"

text \<open>
  \<^verbatim>\<open>str.lower()\<close>: on the code points 0 to 255 it moves \<^verbatim>\<open>A-Z\<close> and the accented
  capitals 192 to 222 (without the multiplication sign 215) up by 32 and keeps the rest.
\<close>

definition lower_char :: "char \<Rightarrow> char" where
  "lower_char c =
     (let n = (of_char c :: nat)
      in if (65 \<le> n \<and> n \<le> 90) \<or> (192 \<le> n \<and> n \<le> 222 \<and> n \<noteq> 215)
         then char_of (n + 32) else c)"

definition lower :: "string \<Rightarrow> string" where
  "lower s = map lower_char s"

text \<open>
  The class \<^verbatim>\<open>\w\<close> of a \<^verbatim>\<open>str\<close> pattern: digits, letters and the underscore, and
  beyond ASCII the characters Python calls alphanumeric (feminine and masculine ordinal,
  superscript digits, micro sign, the vulgar fractions, the accented letters).
\<close>

definition word_char :: "char \<Rightarrow> bool" where
  "word_char c =
     (let n = (of_char c :: nat)
      in (48 \<le> n \<and> n \<le> 57) \<or> (65 \<le> n \<and> n \<le> 90) \<or> n = 95 \<or> (97 \<le> n \<and> n \<le> 122)
         \<or> n = 170 \<or> n = 178 \<or> n = 179 \<or> n = 181 \<or> n = 185 \<or> n = 186
         \<or> (188 \<le> n \<and> n \<le> 190)
         \<or> (192 \<le> n \<and> n \<noteq> 215 \<and> n \<noteq> 247))"

text \<open>
  \<^verbatim>\<open>re.findall(r'\b\w+\b', text)\<close>.  The scan goes left to right.  A match can only start
  at a word character whose left neighbour is none (the first \<^verbatim>\<open>\b\<close>); the greedy
  \<^verbatim>\<open>\w+\<close> then takes the whole run of word characters, where the second \<^verbatim>\<open>\b\<close> holds, and
  the scan goes on behind the run.  So the matches are the maximal runs of word
  characters, in order.
\<close>

function findall_words :: "string \<Rightarrow> string list" where
  "findall_words [] = []"
| "findall_words (c # cs) =
     (if word_char c
      then (c # takeWhile word_char cs) # findall_words (dropWhile word_char cs)
      else findall_words cs)"
  by pat_completeness auto
termination
  by (relation "measure length") (auto simp: length_dropWhile_le less_Suc_eq_le)

text \<open>\<^verbatim>\<open>text.replace(' ', '')\<close>: every space character is dropped.\<close>

definition replace_spaces :: "string \<Rightarrow> string" where
  "replace_spaces s = filter (\<lambda>c. c \<noteq> CHR '' '') s"

text \<open>\<^verbatim>\<open>d[k] = v\<close>: an existing key keeps its place, a new one goes to the end.\<close>

fun dict_set :: "'k \<Rightarrow> 'v \<Rightarrow> ('k \<times> 'v) list \<Rightarrow> ('k \<times> 'v) list" where
  "dict_set k v [] = [(k, v)]"
| "dict_set k v ((k', v') # d) = (if k' = k then (k, v) # d else (k', v') # dict_set k v d)"

text \<open>\<^verbatim>\<open>d.get(k, default)\<close>\<close>

definition dict_get :: "('k \<times> 'v) list \<Rightarrow> 'k \<Rightarrow> 'v \<Rightarrow> 'v" where
  "dict_get d k dflt = (case map_of d k of None \<Rightarrow> dflt | Some v \<Rightarrow> v)"

text \<open>
  \<^verbatim>\<open>Counter(iterable)\<close>, and \<^verbatim>\<open>dict(Counter(iterable))\<close> which copies it: starting from
  the empty dictionary, \<^verbatim>\<open>d[elem] = d.get(elem, 0) + 1\<close> for every element in order.
\<close>

definition count_elem :: "'k \<Rightarrow> ('k \<times> nat) list \<Rightarrow> ('k \<times> nat) list" where
  "count_elem elem d = dict_set elem (dict_get d elem 0 + 1) d"

definition Counter :: "'k list \<Rightarrow> ('k \<times> nat) list" where
  "Counter xs = fold count_elem xs []"

subsection \<open>The methods\<close>

definition basic_count :: "CountingAI \<Rightarrow> int \<Rightarrow> int \<Rightarrow> int \<Rightarrow> (error + int list) \<times> CountingAI" where
  "basic_count self start end' step =
     (if step = 0 then (Inl (ValueError ''Step cannot be zero''), self)
      else if start = end' then (Inr [start], self)
      else if (start < end' \<and> step < 0) \<or> (start > end' \<and> step > 0) then (Inr [], self)
      else
        let result = py_range start (end' + (if step > 0 then 1 else - 1)) step
        in (Inr result,
            self\<lparr>last_result := Some (RangeResult result),
                 history := history self @
                   [(''Basic Count'',
                     ''from '' @ str_int start @ '' to '' @ str_int end' @ '' by '' @ str_int step,
                     RangeResult result)]\<rparr>))"

text \<open>
  \<^verbatim>\<open>basic_count\<close> again, with the size of the list taken into account: line 28 is
  \<open>list_range\<close>, and an exception raised there leaves the method before the two
  assignments that follow.
\<close>

definition basic_count_on :: "nat \<Rightarrow> CountingAI \<Rightarrow> int \<Rightarrow> int \<Rightarrow> int \<Rightarrow> (error + int list) \<times> CountingAI" where
  "basic_count_on room self start end' step =
     (if step = 0 then (Inl (ValueError ''Step cannot be zero''), self)
      else if start = end' then (Inr [start], self)
      else if (start < end' \<and> step < 0) \<or> (start > end' \<and> step > 0) then (Inr [], self)
      else
        case list_range room start (end' + (if step > 0 then 1 else - 1)) step of
          Inl e \<Rightarrow> (Inl e, self)
        | Inr result \<Rightarrow>
            (Inr result,
             self\<lparr>last_result := Some (RangeResult result),
                  history := history self @
                    [(''Basic Count'',
                      ''from '' @ str_int start @ '' to '' @ str_int end' @ '' by '' @ str_int step,
                      RangeResult result)]\<rparr>))"

definition count_occurrences :: "CountingAI \<Rightarrow> string \<Rightarrow> bool \<Rightarrow> text_counts \<times> CountingAI" where
  "count_occurrences self text0 case_sensitive =
     (let text1 = (if \<not> case_sensitive then lower text0 else text0);
          ws = findall_words text1;
          all_chars = replace_spaces text1;
          char_count = Counter all_chars;
          word_count = Counter ws;
          result = \<lparr>characters = char_count, words = word_count\<rparr>
      in (result,
          self\<lparr>last_result := Some (OccurrencesResult result),
               history := history self @
                 [(''Count Occurrences'',
                   ''Text: '' @ [CHR 0x27] @ take 20 text1 @ ''...'' @ [CHR 0x27],
                   OccurrencesResult result)]\<rparr>))"

definition custom_count :: "CountingAI \<Rightarrow> string list \<Rightarrow> (string \<times> nat) list \<times> CountingAI" where
  "custom_count self items =
     (let count = Counter items;
          result = count
      in (result,
          self\<lparr>last_result := Some (CustomResult result),
               history := history self @
                 [(''Custom Count'', str_nat (length items) @ '' items'', CustomResult result)]\<rparr>))"

definition get_history :: "CountingAI \<Rightarrow> (string \<times> string \<times> result) list" where
  "get_history self = history self"

definition clear_history :: "CountingAI \<Rightarrow> CountingAI" where
  "clear_history self = self\<lparr>history := [], last_result := None\<rparr>"

subsection \<open>Sequences of calls\<close>

datatype operation =
    BasicCount int int int
  | CountOccurrences string bool
  | CustomCount "string list"
  | GetHistory
  | ClearHistory

text \<open>The instance after one call; a call that raises leaves it as it was at the raise.\<close>

fun perform :: "operation \<Rightarrow> CountingAI \<Rightarrow> CountingAI" where
  "perform (BasicCount start end' step) self = snd (basic_count self start end' step)"
| "perform (CountOccurrences text0 case_sensitive) self = snd (count_occurrences self text0 case_sensitive)"
| "perform (CustomCount items) self = snd (custom_count self items)"
| "perform GetHistory self = self"
| "perform ClearHistory self = clear_history self"

definition run :: "operation list \<Rightarrow> CountingAI" where
  "run ops = fold perform ops init"

section \<open>Auxiliary facts\<close>

subsection \<open>Dictionaries and \<^verbatim>\<open>Counter\<close>\<close>

lemma map_of_dict_set: "map_of (dict_set k v d) = (map_of d)(k \<mapsto> v)"
  by (induction d) (auto simp: fun_eq_iff)

lemma keys_dict_set:
  "map fst (dict_set k v d) = (if k \<in> set (map fst d) then map fst d else map fst d @ [k])"
  by (induction d) (auto split: if_splits)

lemma map_of_count_elem:
  "map_of (count_elem y d) x =
     (if x = y then Some (Suc (case map_of d y of None \<Rightarrow> 0 | Some n \<Rightarrow> n)) else map_of d x)"
  by (simp add: count_elem_def map_of_dict_set dict_get_def)

lemma keys_count_elem:
  "map fst (count_elem y d) = (if y \<in> set (map fst d) then map fst d else map fst d @ [y])"
  by (simp add: count_elem_def keys_dict_set)

text \<open>The loop of \<^verbatim>\<open>Counter\<close>, started from any dictionary \<open>d\<close>.\<close>

lemma map_of_fold_count_elem:
  "map_of (fold count_elem xs d) x =
     (if x \<in> set xs \<or> map_of d x \<noteq> None
      then Some (count_list xs x + (case map_of d x of None \<Rightarrow> 0 | Some n \<Rightarrow> n))
      else None)"
proof (induction xs arbitrary: d)
  case Nil
  show ?case by (cases "map_of d x") simp_all
next
  case (Cons y ys)
  show ?case
    by (cases "map_of d x") (simp_all add: Cons.IH map_of_count_elem)
qed

lemma distinct_fold_count_elem:
  "distinct (map fst d) \<Longrightarrow> distinct (map fst (fold count_elem xs d))"
proof (induction xs arbitrary: d)
  case Nil
  then show ?case by simp
next
  case (Cons y ys)
  have "distinct (map fst (count_elem y d))"
    using Cons.prems by (simp add: keys_count_elem)
  then show ?case
    using Cons.IH by simp
qed

lemma keys_fold_count_elem:
  "set (map fst (fold count_elem xs d)) = set (map fst d) \<union> set xs"
proof (induction xs arbitrary: d)
  case Nil
  show ?case by simp
next
  case (Cons y ys)
  show ?case
    by (simp only: fold_simps Cons.IH keys_count_elem) auto
qed

lemma map_of_Counter:
  "map_of (Counter xs) x = (if x \<in> set xs then Some (count_list xs x) else None)"
  by (simp add: Counter_def map_of_fold_count_elem)

lemma distinct_Counter: "distinct (map fst (Counter xs))"
  by (simp add: Counter_def distinct_fold_count_elem)

lemma keys_Counter: "fst ` set (Counter xs) = set xs"
  using keys_fold_count_elem [of xs "[]"] by (simp add: Counter_def)

subsection \<open>\<^verbatim>\<open>range\<close>\<close>






subsection \<open>The size of the list\<close>

text \<open>\<open>range_len\<close> is the length of the list of values.\<close>

lemma length_py_range: "int (length (py_range start stop step)) = range_len start stop step"
proof (induction start stop step rule: py_range.induct)
  case (1 start stop step)
  show ?case
  proof (cases "(0 < step \<and> start < stop) \<or> (step < 0 \<and> stop < start)")
    case False
    then show ?thesis
      by (subst py_range.simps) (auto simp: range_len_def)
  next
    case True
    then have l: "int (length (py_range start stop step)) = 1 + range_len (start + step) stop step"
      using 1 by (subst py_range.simps) simp
    show ?thesis
    proof (cases "0 < step")
      case True
      with \<open>(0 < step \<and> start < stop) \<or> (step < 0 \<and> stop < start)\<close> have lt: "start < stop" by auto
      show ?thesis
      proof (cases "start + step < stop")
        case True
        have e: "stop - start - 1 = (stop - (start + step) - 1) + step" by simp
        have "(stop - start - 1) div step = (stop - (start + step) - 1) div step + 1"
          using \<open>0 < step\<close> by (subst e, subst div_add_self2) simp_all
        then show ?thesis using l True lt \<open>0 < step\<close> by (simp add: range_len_def)
      next
        case False
        then have "(stop - start - 1) div step = 0"
          using lt \<open>0 < step\<close> by (simp add: div_pos_pos_trivial)
        then show ?thesis using l False lt \<open>0 < step\<close> by (simp add: range_len_def)
      qed
    next
      case False
      with \<open>(0 < step \<and> start < stop) \<or> (step < 0 \<and> stop < start)\<close>
      have neg: "step < 0" and lt: "stop < start" by auto
      show ?thesis
      proof (cases "stop < start + step")
        case True
        have e: "start - stop - 1 = (start + step - stop - 1) + (- step)" by simp
        have "(start - stop - 1) div (- step) = (start + step - stop - 1) div (- step) + 1"
          using neg by (subst e, subst div_add_self2) simp_all
        then show ?thesis using l True lt neg by (simp add: range_len_def)
      next
        case False
        then have "(start - stop - 1) div (- step) = 0"
          using lt neg by (simp add: div_pos_pos_trivial)
        then show ?thesis using l False lt neg by (simp add: range_len_def)
      qed
    qed
  qed
qed


text \<open>A call that does not raise under a size limit is the call without the limit.\<close>

lemma basic_count_on_fits:
  "\<not> isl (fst (basic_count_on room self x y step)) \<Longrightarrow>
   basic_count_on room self x y step = basic_count self x y step"
  by (auto simp: basic_count_on_def basic_count_def list_range_def Let_def split: if_splits sum.splits)

lemma basic_count_on_raise_keeps_instance:
  "isl (fst (basic_count_on room self x y step)) \<Longrightarrow> snd (basic_count_on room self x y step) = self"
  by (auto simp: basic_count_on_def split: if_splits sum.splits)

subsection \<open>Lower-casing and word matching\<close>




section \<open>The claims\<close>

subsection \<open>\<^verbatim>\<open>basic_count\<close>\<close>




text \<open>
  C2 says that every returning call appends one record to the history, the calls with
  \<open>start = end\<close> and those with a direction mismatch included.  Both of these return
  before the assignment to \<^verbatim>\<open>last_result\<close> and the \<^verbatim>\<open>append\<close>: on a fresh
  instance \<^verbatim>\<open>basic_count(5, 5, 1)\<close> returns \<open>[5]\<close> and \<^verbatim>\<open>basic_count(1, 10, -1)\<close>
  returns \<open>[]\<close>, and the instance is the fresh one still, its history empty.
\<close>

theorem basic_count_early_return_not_logged:
  "basic_count init 5 5 1 = (Inr [5], init)
   \<and> get_history (snd (basic_count init 5 5 1)) = []
   \<and> basic_count init 1 10 (- 1) = (Inr [], init)
   \<and> get_history (snd (basic_count init 1 10 (- 1))) = []"
  by (simp add: basic_count_def get_history_def init_def)




text \<open>
  C4: a call of \<^verbatim>\<open>basic_count\<close> that raises leaves the instance as it was: the history
  holds the same records and \<^verbatim>\<open>last_result\<close> its previous value.
\<close>

theorem basic_count_failure_atomic:
  assumes "isl (fst (basic_count self x y step))"
  shows "snd (basic_count self x y step) = self
         \<and> get_history (snd (basic_count self x y step)) = get_history self
         \<and> last_result (snd (basic_count self x y step)) = last_result self"
  using assms by (simp add: basic_count_def Let_def split: if_splits)

theorem basic_count_failure_atomic_witness:
  "isl (fst (basic_count (snd (custom_count init [''a''])) 1 2 0))
   \<and> get_history (snd (basic_count (snd (custom_count init [''a''])) 1 2 0))
       = [(''Custom Count'', ''1 items'', CustomResult [(''a'', 1)])]
   \<and> last_result (snd (basic_count (snd (custom_count init [''a''])) 1 2 0))
       = Some (CustomResult [(''a'', 1)])"
proof -
  have f: "isl (fst (basic_count (snd (custom_count init [''a''])) 1 2 0))"
    by (simp add: basic_count_def)
  have "get_history (snd (custom_count init [''a''])) = [(''Custom Count'', ''1 items'', CustomResult [(''a'', 1)])]"
    by code_simp
  moreover have "last_result (snd (custom_count init [''a''])) = Some (CustomResult [(''a'', 1)])"
    by code_simp
  ultimately show ?thesis
    using f basic_count_failure_atomic [OF f] by simp
qed

text \<open>
  C5: with equal bounds and any nonzero step, of either sign, \<^verbatim>\<open>basic_count\<close> returns
  the one-element list of that bound.
\<close>

theorem basic_count_equal_bounds:
  "k \<noteq> 0 \<Longrightarrow> fst (basic_count self x x k) = Inr [x]"
  by (simp add: basic_count_def)

theorem basic_count_equal_bounds_witness:
  "(- 7::int) \<noteq> 0 \<and> fst (basic_count init 5 5 (- 7)) = Inr [5]"
  using basic_count_equal_bounds [of "- 7" init 5] by simp

text \<open>
  C6: on a direction mismatch (\<open>start < end\<close> with a negative step, or \<open>start > end\<close> with
  a positive one) \<^verbatim>\<open>basic_count\<close> returns the empty list and does not raise.
\<close>

theorem basic_count_direction_mismatch:
  "(start < end' \<and> step < 0) \<or> (start > end' \<and> step > 0) \<Longrightarrow>
   fst (basic_count self start end' step) = Inr []"
  by (auto simp: basic_count_def)

theorem basic_count_direction_mismatch_witness:
  "(1::int) < 10 \<and> (- 1::int) < 0 \<and> fst (basic_count init 1 10 (- 1)) = Inr []
   \<and> (10::int) > 1 \<and> fst (basic_count init 10 1 1) = Inr []"
  using basic_count_direction_mismatch [of 1 10 "- 1" init]
    basic_count_direction_mismatch [of 10 1 1 init]
  by simp

subsection \<open>\<^verbatim>\<open>count_occurrences\<close>\<close>


text \<open>
  C8: the \<^verbatim>\<open>"characters"\<close> dictionary has one key for every character of the (possibly
  lower-cased) text other than the space, punctuation included, with the number of its
  occurrences; \<^verbatim>\<open>"aa bb"\<close> gives \<^verbatim>\<open>{'a': 2, 'b': 2}\<close>.
\<close>

theorem count_occurrences_characters:
  "map_of (characters (fst (count_occurrences self text0 case_sensitive))) c =
     (let kept = filter (\<lambda>x. x \<noteq> CHR '' '') (if case_sensitive then text0 else lower text0)
      in if c \<in> set kept then Some (count_list kept c) else None)
   \<and> distinct (map fst (characters (fst (count_occurrences self text0 case_sensitive))))
   \<and> characters (fst (count_occurrences init ''aa bb'' True)) = [(CHR ''a'', 2), (CHR ''b'', 2)]
   \<and> characters (fst (count_occurrences init ''a, b!'' True)) =
       [(CHR ''a'', 1), (CHR '','', 1), (CHR ''b'', 1), (CHR ''!'', 1)]"
proof (intro conjI)
  have c: "characters (fst (count_occurrences self text0 case_sensitive)) =
      Counter (filter (\<lambda>x. x \<noteq> CHR '' '') (if case_sensitive then text0 else lower text0))"
    by (simp add: count_occurrences_def Let_def replace_spaces_def)
  show "map_of (characters (fst (count_occurrences self text0 case_sensitive))) c =
     (let kept = filter (\<lambda>x. x \<noteq> CHR '' '') (if case_sensitive then text0 else lower text0)
      in if c \<in> set kept then Some (count_list kept c) else None)"
    unfolding c Let_def by (rule map_of_Counter)
  show "distinct (map fst (characters (fst (count_occurrences self text0 case_sensitive))))"
    unfolding c by (rule distinct_Counter)
  show "characters (fst (count_occurrences init ''aa bb'' True)) = [(CHR ''a'', 2), (CHR ''b'', 2)]"
    by code_simp
  show "characters (fst (count_occurrences init ''a, b!'' True)) =
       [(CHR ''a'', 1), (CHR '','', 1), (CHR ''b'', 1), (CHR ''!'', 1)]"
    by code_simp
qed

subsection \<open>\<^verbatim>\<open>custom_count\<close>\<close>

text \<open>
  C9: \<^verbatim>\<open>custom_count\<close> returns the dictionary whose keys are the distinct strings of the
  list, each once, with the number of occurrences of exactly that string;
  \<^verbatim>\<open>["a", "b", "a"]\<close> gives \<^verbatim>\<open>{"a": 2, "b": 1}\<close>.
\<close>

theorem custom_count_counts:
  "map_of (fst (custom_count self items)) x =
     (if x \<in> set items then Some (count_list items x) else None)
   \<and> distinct (map fst (fst (custom_count self items)))
   \<and> fst ` set (fst (custom_count self items)) = set items
   \<and> fst (custom_count init [''a'', ''b'', ''a'']) = [(''a'', 2), (''b'', 1)]"
proof (intro conjI)
  have c: "fst (custom_count self items) = Counter items"
    by (simp add: custom_count_def Let_def)
  show "map_of (fst (custom_count self items)) x =
     (if x \<in> set items then Some (count_list items x) else None)"
    unfolding c by (rule map_of_Counter)
  show "distinct (map fst (fst (custom_count self items)))"
    unfolding c by (rule distinct_Counter)
  show "fst ` set (fst (custom_count self items)) = set items"
    unfolding c by (rule keys_Counter)
  show "fst (custom_count init [''a'', ''b'', ''a'']) = [(''a'', 2), (''b'', 1)]"
    by code_simp
qed

subsection \<open>\<^verbatim>\<open>clear_history\<close>\<close>

text \<open>
  C10: after any sequence of calls on a new instance, \<^verbatim>\<open>clear_history\<close> leaves an empty
  history for \<^verbatim>\<open>get_history\<close> and puts \<^verbatim>\<open>last_result\<close> back to \<^verbatim>\<open>None\<close>, its
  initial value.
\<close>

theorem clear_history_resets:
  "get_history (clear_history (run ops)) = []
   \<and> last_result (clear_history (run ops)) = None
   \<and> last_result (clear_history (run ops)) = last_result init"
  by (simp add: get_history_def clear_history_def init_def)

end
